theory Spec2Isabelle
  imports Main
begin

section \<open>Python values, strings and paths\<close>

text \<open>
  The program is Python 3. A \<open>str\<close> is modelled as a \<open>string\<close> whose characters
  stand for the code points below 256; \<open>len\<close> is \<open>length\<close>. A value that a
  widget or a setter may hold is \<open>None\<close>, a \<open>str\<close> or a \<open>bool\<close>.
  Every \<open>raise\<close> of the source, and every exception of a library call the source
  makes, is a value of \<open>error\<close>.
\<close>

datatype py_value = PyNone | PyStr string | PyBool bool

datatype error =
    ValueError | TypeError | KeyError | FileExistsError | FileNotFoundError
  | NotADirectoryError | IsADirectoryError | ID3NoHeaderError | IOError | URLError
  | ConnectionError | HTTPError

text \<open>\<open>str.isspace\<close> on one character, for the code points below 256.\<close>

definition is_space :: "char \<Rightarrow> bool" where
  "is_space c = ((of_char c :: nat) \<in> {9, 10, 11, 12, 13, 28, 29, 30, 31, 32, 133, 160})"

definition is_digit :: "char \<Rightarrow> bool" where
  "is_digit c = (48 \<le> (of_char c :: nat) \<and> (of_char c :: nat) \<le> 57)"

text \<open>\<open>s.rstrip()\<close>: all trailing white space goes.\<close>

definition py_rstrip :: "string \<Rightarrow> string" where
  "py_rstrip s = rev (dropWhile is_space (rev s))"

text \<open>\<open>s.rstrip('/')\<close>, as \<open>os.path.dirname\<close> uses it.\<close>

definition rstrip_char :: "char \<Rightarrow> string \<Rightarrow> string" where
  "rstrip_char c s = rev (dropWhile (\<lambda>x. x = c) (rev s))"

text \<open>\<open>s.split(sep)\<close> for a separator of one character.\<close>

fun py_split :: "char \<Rightarrow> string \<Rightarrow> string list" where
  "py_split sep [] = [[]]"
| "py_split sep (x # xs) =
     (if x = sep then [] # py_split sep xs
      else (case py_split sep xs of
              [] \<Rightarrow> [[x]]
            | w # ws \<Rightarrow> (x # w) # ws))"

text \<open>\<open>sep.join(xs)\<close>.\<close>

fun py_join :: "string \<Rightarrow> string list \<Rightarrow> string" where
  "py_join sep [] = []"
| "py_join sep [x] = x"
| "py_join sep (x # y # ys) = x @ sep @ py_join sep (y # ys)"

text \<open>
  \<open>s.replace(old, new)\<close>: the occurrences of \<open>old\<close> are replaced from left to
  right, without overlap. With an empty \<open>old\<close> Python puts \<open>new\<close> before every
  character and at the end.
\<close>

function py_replace :: "string \<Rightarrow> string \<Rightarrow> string \<Rightarrow> string" where
  "py_replace old new s =
     (if old = [] then concat (map (\<lambda>c. new @ [c]) s) @ new
      else if s = [] then []
      else if take (length old) s = old
           then new @ py_replace old new (drop (length old) s)
      else hd s # py_replace old new (tl s))"
  by pat_completeness auto
termination
  by (relation "measure (\<lambda>(old, new, s). length s)") (auto simp: neq_Nil_conv)

declare py_replace.simps [simp del]

text \<open>\<open>s[0:n]\<close> for an integer \<open>n\<close>: a negative bound counts from the end.\<close>

definition slice_to :: "int \<Rightarrow> 'a list \<Rightarrow> 'a list" where
  "slice_to n xs = (if 0 \<le> n then take (nat n) xs else take (nat (int (length xs) + n)) xs)"

text \<open>\<open>s.rfind(c)\<close>: the index of the last occurrence, or \<open>-1\<close>.\<close>

definition rfind :: "char \<Rightarrow> string \<Rightarrow> int" where
  "rfind c s =
     (if c \<in> set s then int (length s) - 1 - int (length (takeWhile (\<lambda>x. x \<noteq> c) (rev s)))
      else - 1)"

subsection \<open>\<open>os.path\<close> on POSIX\<close>

definition basename :: "string \<Rightarrow> string" where
  "basename p = drop (nat (rfind (CHR ''/'') p + 1)) p"

definition dirname :: "string \<Rightarrow> string" where
  "dirname p =
     (let head = take (nat (rfind (CHR ''/'') p + 1)) p
      in if head \<noteq> [] \<and> head \<noteq> replicate (length head) (CHR ''/'')
         then rstrip_char (CHR ''/'') head else head)"

definition path_join :: "string \<Rightarrow> string \<Rightarrow> string" where
  "path_join a b =
     (if take 1 b = ''/'' then b
      else if a = [] \<or> (a \<noteq> [] \<and> last a = CHR ''/'') then a @ b
      else a @ ''/'' @ b)"

text \<open>
  \<open>os.path.splitext\<close>: the extension starts at the last dot of the last path
  component, unless only dots precede it there.
\<close>

definition splitext :: "string \<Rightarrow> string \<times> string" where
  "splitext p =
     (let sepIndex = rfind (CHR ''/'') p;
          dotIndex = rfind (CHR ''.'') p
      in if dotIndex > sepIndex
            \<and> list_ex (\<lambda>c. c \<noteq> CHR ''.'')
                 (take (nat dotIndex - nat (sepIndex + 1)) (drop (nat (sepIndex + 1)) p))
         then (take (nat dotIndex) p, drop (nat dotIndex) p)
         else (p, []))"

subsection \<open>\<open>file_utils.ensure_valid_filename\<close>\<close>

definition ensure_valid_filename :: "string \<Rightarrow> string" where
  "ensure_valid_filename fname =
     (let (root, extension) = splitext fname;
          root' = slice_to (255 - int (length extension)) (py_replace '':'' [] root)
      in root' @ extension)"

section \<open>The ID3 tag object of mutagenx\<close>

text \<open>
  \<open>MP3Track\<close> wraps one \<open>mutagenx.id3.ID3\<close> object and uses ten frame classes of
  it. The library is not part of the repository; what the program relies on is modelled
  here as the library documents it:
  \<^item> an \<open>ID3\<close> object is a dictionary from a frame's \<open>HashKey\<close> to the frame, and
    \<open>add(frame)\<close> is \<open>self[frame.HashKey] = frame\<close>: a frame with the same key is
    replaced in place, a new key goes to the end (the dictionary is kept in insertion
    order);
  \<^item> the \<open>HashKey\<close> of a text frame is its frame identifier, that of a comment is
    built from identifier, description and language, that of a picture from identifier
    and description;
  \<^item> \<open>getall(id)\<close> and \<open>delall(id)\<close> take the frame stored under \<open>id\<close> itself
    when there is one, and otherwise every frame whose key starts with \<open>id\<close> and a
    colon;
  \<^item> the \<open>text\<close> of a text frame is a list: a \<open>str\<close> given to the constructor is
    split at the character U+0000, \<open>None\<close> gives the empty list, anything else is
    refused with \<open>ValueError\<close>. The items of a \<open>TDRC\<close> frame are time stamps, read
    through \<open>get_text\<close>.
\<close>

datatype text_id = TIT2 | TPE1 | TPE2 | TALB | TCON | TDRC | TRCK | TCMP

fun FrameID :: "text_id \<Rightarrow> string" where
  "FrameID TIT2 = ''TIT2''"
| "FrameID TPE1 = ''TPE1''"
| "FrameID TPE2 = ''TPE2''"
| "FrameID TALB = ''TALB''"
| "FrameID TCON = ''TCON''"
| "FrameID TDRC = ''TDRC''"
| "FrameID TRCK = ''TRCK''"
| "FrameID TCMP = ''TCMP''"

datatype text_item = Str string | ID3TimeStamp string

fun item_text :: "text_item \<Rightarrow> string" where
  "item_text (Str s) = s"
| "item_text (ID3TimeStamp s) = s"

text \<open>
  \<open>COMM lang desc text\<close> and \<open>APIC mime type desc data\<close>; the encoding argument
  (always 3, UTF-8) is left out.
\<close>

datatype frame =
    TextFrame text_id "text_item list"
  | COMM string string "text_item list"
  | APIC string nat string string

fun HashKey :: "frame \<Rightarrow> string" where
  "HashKey (TextFrame i txt) = FrameID i"
| "HashKey (COMM lang desc txt) = ''COMM:'' @ desc @ '':'' @ lang"
| "HashKey (APIC mime ty desc dat) = ''APIC:'' @ desc"

text \<open>The \<open>text\<close> attribute; a picture frame has none, and no getter asks for one.\<close>

fun frame_text :: "frame \<Rightarrow> text_item list" where
  "frame_text (TextFrame i txt) = txt"
| "frame_text (COMM lang desc txt) = txt"
| "frame_text (APIC mime ty desc dat) = []"

definition startswith :: "string \<Rightarrow> string \<Rightarrow> bool" where
  "startswith s k = (take (length k) s = k)"

fun id3_add :: "frame \<Rightarrow> frame list \<Rightarrow> frame list" where
  "id3_add f [] = [f]"
| "id3_add f (g # gs) = (if HashKey g = HashKey f then f # gs else g # id3_add f gs)"

definition getall :: "string \<Rightarrow> frame list \<Rightarrow> frame list" where
  "getall key fs =
     (case List.find (\<lambda>f. HashKey f = key) fs of
        Some f \<Rightarrow> [f]
      | None \<Rightarrow> filter (\<lambda>f. startswith (HashKey f) (key @ '':'')) fs)"

definition delall :: "string \<Rightarrow> frame list \<Rightarrow> frame list" where
  "delall key fs =
     (if list_ex (\<lambda>f. HashKey f = key) fs
      then filter (\<lambda>f. HashKey f \<noteq> key) fs
      else filter (\<lambda>f. \<not> startswith (HashKey f) (key @ '':'')) fs)"

text \<open>The constructor's check of the \<open>text\<close> argument of a text or comment frame.\<close>

definition text_spec :: "py_value \<Rightarrow> error + text_item list" where
  "text_spec v =
     (case v of
        PyNone \<Rightarrow> Inr []
      | PyStr s \<Rightarrow> Inr (map Str (py_split (CHR 0x00) s))
      | PyBool b \<Rightarrow> Inl ValueError)"

subsection \<open>Files\<close>

text \<open>
  The file system maps a path to what the program can see there: nothing, a directory,
  or a file, which has no ID3 header or has a tag with its frames. Paths are compared
  as strings.
\<close>

datatype node = Dir | File "frame list option"

type_synonym filesystem = "string \<Rightarrow> node option"

definition path_exists :: "filesystem \<Rightarrow> string \<Rightarrow> bool" where
  "path_exists fs p = (fs p \<noteq> None)"

text \<open>
  \<open>MP3Track\<close> has one attribute, the \<open>ID3\<close> object: its \<open>filename\<close> and its
  dictionary of frames.
\<close>

record mp3track =
  filename :: string
  frames :: "frame list"



text \<open>
  \<open>ID3.load(path)\<close> sets \<open>filename\<close>, then reads the tag of the file and adds each
  frame of it to the dictionary: a frame in memory with the same key is overwritten by
  the one of the file.
\<close>

definition id3_load :: "string \<Rightarrow> filesystem \<Rightarrow> mp3track \<Rightarrow> error option \<times> mp3track" where
  "id3_load path fs t =
     (case fs path of
        None \<Rightarrow> (Some FileNotFoundError, t\<lparr>filename := path\<rparr>)
      | Some Dir \<Rightarrow> (Some IsADirectoryError, t\<lparr>filename := path\<rparr>)
      | Some (File None) \<Rightarrow> (Some ID3NoHeaderError, t\<lparr>filename := path\<rparr>)
      | Some (File (Some tag)) \<Rightarrow>
          (None, t\<lparr>filename := path, frames := fold id3_add tag (frames t)\<rparr>))"

section \<open>\<open>MP3Track\<close>\<close>

text \<open>
  A method that mutates the track returns the exception it raised, if any, and the
  track as the call leaves it.
\<close>

definition add_text_frame :: "text_id \<Rightarrow> py_value \<Rightarrow> mp3track \<Rightarrow> error option \<times> mp3track" where
  "add_text_frame i v t =
     (case text_spec v of
        Inl e \<Rightarrow> (Some e, t)
      | Inr txt \<Rightarrow> (None, t\<lparr>frames := id3_add (TextFrame i txt) (frames t)\<rparr>))"

definition set_title :: "py_value \<Rightarrow> mp3track \<Rightarrow> error option \<times> mp3track" where
  "set_title title t = add_text_frame TIT2 title t"

definition set_artist :: "py_value \<Rightarrow> mp3track \<Rightarrow> error option \<times> mp3track" where
  "set_artist artist t = add_text_frame TPE1 artist t"

definition set_album_artist :: "py_value \<Rightarrow> mp3track \<Rightarrow> error option \<times> mp3track" where
  "set_album_artist album_artist t = add_text_frame TPE2 album_artist t"

definition set_album :: "py_value \<Rightarrow> mp3track \<Rightarrow> error option \<times> mp3track" where
  "set_album album t = add_text_frame TALB album t"

definition set_genre :: "py_value \<Rightarrow> mp3track \<Rightarrow> error option \<times> mp3track" where
  "set_genre genre t = add_text_frame TCON genre t"

text \<open>
  \<open>re.match\<close> with the two patterns of the source. \<open>[0-9]\<close> is an ASCII digit; the
  \<open>$\<close> of Python matches at the end of the string and also just before a line feed
  that ends the string.
\<close>

definition at_dollar :: "string \<Rightarrow> bool" where
  "at_dollar r = (r = [] \<or> r = [CHR 0x0A])"

definition match_year :: "string \<Rightarrow> bool" where
  "match_year s = (4 \<le> length s \<and> list_all is_digit (take 4 s) \<and> at_dollar (drop 4 s))"

definition match_track :: "string \<Rightarrow> bool" where
  "match_track s =
     (case dropWhile is_digit s of
        [] \<Rightarrow> False
      | c # r \<Rightarrow> c = CHR ''/'' \<and> at_dollar (dropWhile is_digit r))"

text \<open>
  The year goes into a \<open>TDRC\<close> frame as a time stamp. A stamp made from a string that
  passed the pattern reads back, through \<open>get_text\<close>, as its four digits. \<open>re.match\<close>
  raises \<open>TypeError\<close> on a value that is not a string.
\<close>

definition set_year :: "py_value \<Rightarrow> mp3track \<Rightarrow> error option \<times> mp3track" where
  "set_year year t =
     (case year of
        PyStr y \<Rightarrow>
          (if match_year y
           then (None, t\<lparr>frames := id3_add (TextFrame TDRC [ID3TimeStamp (take 4 y)]) (frames t)\<rparr>)
           else (Some ValueError, t))
      | _ \<Rightarrow> (Some TypeError, t))"

definition set_track :: "py_value \<Rightarrow> mp3track \<Rightarrow> error option \<times> mp3track" where
  "set_track track t =
     (case track of
        PyStr s \<Rightarrow>
          (if match_track s then add_text_frame TRCK (PyStr s) t
           else (Some ValueError, t))
      | _ \<Rightarrow> (Some TypeError, t))"

text \<open>\<open>if is_part:\<close> takes the truth value of whatever it is given.\<close>

fun truthy :: "py_value \<Rightarrow> bool" where
  "truthy PyNone = False"
| "truthy (PyStr s) = (s \<noteq> [])"
| "truthy (PyBool b) = b"

definition set_part_of_compilation :: "py_value \<Rightarrow> mp3track \<Rightarrow> error option \<times> mp3track" where
  "set_part_of_compilation is_part t =
     (if truthy is_part then add_text_frame TCMP (PyStr ''1'') t
      else add_text_frame TCMP (PyStr ''0'') t)"

definition get_frames :: "string \<Rightarrow> mp3track \<Rightarrow> frame list" where
  "get_frames identifier t = getall identifier (frames t)"

definition get_frames_text :: "string \<Rightarrow> mp3track \<Rightarrow> string option" where
  "get_frames_text identifier t =
     (let fs = get_frames identifier t
      in if length fs = 0 then None
         else Some (py_rstrip
                (concat (map (\<lambda>f. concat (map (\<lambda>x. item_text x @ '' '') (frame_text f))) fs))))"

definition get_title :: "mp3track \<Rightarrow> string option" where
  "get_title t = get_frames_text ''TIT2'' t"

definition get_artist :: "mp3track \<Rightarrow> string option" where
  "get_artist t = get_frames_text ''TPE1'' t"

definition get_album_artist :: "mp3track \<Rightarrow> string option" where
  "get_album_artist t = get_frames_text ''TPE2'' t"

definition get_album :: "mp3track \<Rightarrow> string option" where
  "get_album t = get_frames_text ''TALB'' t"

definition get_genre :: "mp3track \<Rightarrow> string option" where
  "get_genre t = get_frames_text ''TCON'' t"

definition get_year :: "mp3track \<Rightarrow> string option" where
  "get_year t = get_frames_text ''TDRC'' t"

definition get_track :: "mp3track \<Rightarrow> string option" where
  "get_track t = get_frames_text ''TRCK'' t"

definition get_part_of_compilation :: "mp3track \<Rightarrow> bool" where
  "get_part_of_compilation t =
     (let compilation_flag = get_frames_text ''TCMP'' t
      in if compilation_flag = None \<or> compilation_flag = Some ''0'' then False else True)"

definition delete_frames :: "string \<Rightarrow> mp3track \<Rightarrow> mp3track" where
  "delete_frames identifier t = t\<lparr>frames := delall identifier (frames t)\<rparr>"

definition clear_comments :: "mp3track \<Rightarrow> mp3track" where
  "clear_comments t = delete_frames ''COMM'' t"

definition add_comment :: "py_value \<Rightarrow> string \<Rightarrow> bool \<Rightarrow> mp3track \<Rightarrow> error option \<times> mp3track" where
  "add_comment comment key clear_existing_comments t =
     (let t1 = (if clear_existing_comments then clear_comments t else t)
      in case text_spec comment of
           Inl e \<Rightarrow> (Some e, t1)
         | Inr txt \<Rightarrow> (None, t1\<lparr>frames := id3_add (COMM ''eng'' key txt) (frames t1)\<rparr>))"

definition get_comments :: "mp3track \<Rightarrow> string option" where
  "get_comments t = get_frames_text ''COMM'' t"

definition clear_pictures :: "mp3track \<Rightarrow> mp3track" where
  "clear_pictures t = delete_frames ''APIC'' t"

text \<open>
  The two picture methods. \<open>guess_type\<close> stands for \<open>mimetypes.guess_type(path)[0]\<close>
  and \<open>read\<close> for opening and reading the file or the URL (\<open>None\<close> when that fails);
  both belong to the environment.
\<close>

definition add_picture_from_file ::
  "(string \<Rightarrow> string option) \<Rightarrow> (string \<Rightarrow> string option) \<Rightarrow> string \<Rightarrow> bool
     \<Rightarrow> mp3track \<Rightarrow> error option \<times> mp3track" where
  "add_picture_from_file guess_type read path clear_existing_pictures t =
     (let t1 = (if clear_existing_pictures then clear_pictures t else t);
          mime_type = guess_type path
      in if mime_type \<notin> {Some ''image/png'', Some ''image/jpeg''} then (Some ValueError, t1)
         else case read path of
                None \<Rightarrow> (Some IOError, t1)
              | Some dat \<Rightarrow>
                  (None, t1\<lparr>frames :=
                     id3_add (APIC (the mime_type) 3 ''Front Cover'' dat) (frames t1)\<rparr>))"

definition add_picture_from_url ::
  "(string \<Rightarrow> string option) \<Rightarrow> (string \<Rightarrow> string option) \<Rightarrow> string \<Rightarrow> bool
     \<Rightarrow> mp3track \<Rightarrow> error option \<times> mp3track" where
  "add_picture_from_url guess_type urlopen url clear_existing_pictures t =
     (let t1 = (if clear_existing_pictures then clear_pictures t else t);
          mime_type = guess_type url
      in if mime_type \<notin> {Some ''image/png'', Some ''image/jpeg''} then (Some ValueError, t1)
         else case urlopen url of
                None \<Rightarrow> (Some URLError, t1)
              | Some dat \<Rightarrow>
                  (None, t1\<lparr>frames :=
                     id3_add (APIC (the mime_type) 3 ''Front Cover'' dat) (frames t1)\<rparr>))"


definition get_file_path :: "mp3track \<Rightarrow> string" where
  "get_file_path t = filename t"

text \<open>
  \<open>os.replace(src, dst)\<close> moves a file. It fails when the source is missing, when
  the directory of the destination is missing or is not a directory (an empty directory
  part stands for the current directory), and when the destination is a directory.
\<close>

definition parent_ok :: "filesystem \<Rightarrow> string \<Rightarrow> bool" where
  "parent_ok fs p = (dirname p = [] \<or> fs (dirname p) = Some Dir)"

definition os_replace :: "string \<Rightarrow> string \<Rightarrow> filesystem \<Rightarrow> error + filesystem" where
  "os_replace src dst fs =
     (if fs src = None then Inl FileNotFoundError
      else if \<not> parent_ok fs dst
           then Inl (if fs (dirname dst) = None then FileNotFoundError else NotADirectoryError)
      else if fs dst = Some Dir then Inl IsADirectoryError
      else Inr ((fs(src := None))(dst := fs src)))"

text \<open>
  \<open>rename_file\<close>: after the move the tag is loaded again from the new path.
\<close>

definition new_path_of :: "mp3track \<Rightarrow> string \<Rightarrow> string" where
  "new_path_of t new_base_filename =
     path_join (dirname (filename t)) (ensure_valid_filename new_base_filename)"

definition rename_file ::
  "string \<Rightarrow> filesystem \<times> mp3track \<Rightarrow> error option \<times> filesystem \<times> mp3track" where
  "rename_file new_base_filename st =
     (let fs = fst st; t = snd st;
          original_path = filename t;
          new_path = new_path_of t new_base_filename
      in if path_exists fs new_path then (Some FileExistsError, fs, t)
         else case os_replace original_path new_path fs of
                Inl e \<Rightarrow> (Some e, fs, t)
              | Inr fs' \<Rightarrow> (let (e, t') = id3_load new_path fs' t in (e, fs', t')))"

section \<open>\<open>Field\<close>\<close>

text \<open>
  A field of the editor names a getter and a setter of \<open>MP3Track\<close> and owns two
  widgets: the selection checkbox and the entry widget (a text field, or a second
  checkbox when the field is a toggle). The form creates nine fields; their method
  names are the constructors below.
\<close>

datatype getter =
    Get_title | Get_artist | Get_album_artist | Get_album | Get_genre | Get_year
  | Get_track | Get_comments | Get_part_of_compilation

datatype setter =
    Set_title | Set_artist | Set_album_artist | Set_album | Set_genre | Set_year
  | Set_track | Add_comment | Set_part_of_compilation

record field =
  toggle :: bool
  getter :: getter
  setter :: setter
  checkbox_value :: bool
  entry_value :: py_value
  entry_name :: string

definition str_or_none :: "string option \<Rightarrow> py_value" where
  "str_or_none v = (case v of None \<Rightarrow> PyNone | Some s \<Rightarrow> PyStr s)"

text \<open>\<open>getattr(track, self.getter)()\<close> and \<open>getattr(track, self.setter)(value)\<close>.\<close>

fun call_getter :: "getter \<Rightarrow> mp3track \<Rightarrow> py_value" where
  "call_getter Get_title t = str_or_none (get_title t)"
| "call_getter Get_artist t = str_or_none (get_artist t)"
| "call_getter Get_album_artist t = str_or_none (get_album_artist t)"
| "call_getter Get_album t = str_or_none (get_album t)"
| "call_getter Get_genre t = str_or_none (get_genre t)"
| "call_getter Get_year t = str_or_none (get_year t)"
| "call_getter Get_track t = str_or_none (get_track t)"
| "call_getter Get_comments t = str_or_none (get_comments t)"
| "call_getter Get_part_of_compilation t = PyBool (get_part_of_compilation t)"

fun call_setter :: "setter \<Rightarrow> py_value \<Rightarrow> mp3track \<Rightarrow> error option \<times> mp3track" where
  "call_setter Set_title v t = set_title v t"
| "call_setter Set_artist v t = set_artist v t"
| "call_setter Set_album_artist v t = set_album_artist v t"
| "call_setter Set_album v t = set_album v t"
| "call_setter Set_genre v t = set_genre v t"
| "call_setter Set_year v t = set_year v t"
| "call_setter Set_track v t = set_track v t"
| "call_setter Add_comment v t = add_comment v ''comment_key'' True t"
| "call_setter Set_part_of_compilation v t = set_part_of_compilation v t"







section \<open>\<open>TrackEditorForm\<close>\<close>

text \<open>
  The state of the form and of what it owns: the fields (a set, listed in iteration
  order), the map from file path to track, the selected tracks (a set, listed in
  iteration order), the track objects by reference, and the files. A track object is
  shared between the map and the selection, so both hold references.
\<close>

record app =
  form_fields :: "field list"
  mp3_tracks :: "string \<Rightarrow> nat option"
  selected_mp3_tracks :: "nat list"
  heap :: "nat \<Rightarrow> mp3track"
  files :: filesystem




text \<open>The base file name that \<open>rename_files\<close> builds from the tag, if it can.\<close>

definition file_name_info :: "mp3track \<Rightarrow> string list" where
  "file_name_info track =
     (case get_artist track of None \<Rightarrow> [] | Some artist \<Rightarrow> [artist])
     @ (case get_album track of None \<Rightarrow> [] | Some album \<Rightarrow> [album])
     @ (case get_title track of None \<Rightarrow> [] | Some title \<Rightarrow> [title])"

text \<open>
  The loop of \<open>rename_files\<close>, with the two lists of failures it collects. Only
  \<open>FileExistsError\<close> is caught.
\<close>

fun rename_loop ::
  "string list \<Rightarrow> app \<Rightarrow> string list \<Rightarrow> string list
     \<Rightarrow> error option \<times> app \<times> string list \<times> string list" where
  "rename_loop [] a files_not_enough_info files_already_exist =
     (None, a, files_not_enough_info, files_already_exist)"
| "rename_loop (file_path # rest) a files_not_enough_info files_already_exist =
     (case mp3_tracks a file_path of
        None \<Rightarrow> (Some KeyError, a, files_not_enough_info, files_already_exist)
      | Some r \<Rightarrow>
          (let track = heap a r;
               info = file_name_info track
           in if \<not> length info > 0
              then rename_loop rest a (files_not_enough_info @ [file_path]) files_already_exist
              else let new_base_filename = py_join '' - '' info @ ''.mp3''
                   in if basename (get_file_path track) = new_base_filename
                      then rename_loop rest a files_not_enough_info files_already_exist
                      else (case rename_file new_base_filename (files a, track) of
                              (Some e, fs', t') \<Rightarrow>
                                (if e = FileExistsError
                                 then rename_loop rest
                                        (a\<lparr>heap := (heap a)(r := t'), files := fs'\<rparr>)
                                        files_not_enough_info (files_already_exist @ [file_path])
                                 else (Some e, a\<lparr>heap := (heap a)(r := t'), files := fs'\<rparr>,
                                       files_not_enough_info, files_already_exist))
                            | (None, fs', t') \<Rightarrow>
                                rename_loop rest
                                  (a\<lparr>heap := (heap a)(r := t'), files := fs',
                                     mp3_tracks :=
                                       ((mp3_tracks a)(file_path := None))
                                         (get_file_path t' := Some r)\<rparr>)
                                  files_not_enough_info files_already_exist)))"



section \<open>\<open>album_art_utils.fetch_album_art\<close>\<close>

text \<open>
  The answer of \<open>requests.get\<close>: the status code and the body. \<open>json()\<close> raises
  \<open>ValueError\<close> on a body that is not JSON; of a JSON body only the \<open>results\<close> entry
  matters (\<open>None\<close> when the key is missing, a \<open>KeyError\<close>), and of each result only
  its \<open>artworkUrl100\<close> entry, if it has one.
\<close>

datatype body = NotJson | Json "string option list option"

record response =
  status_code :: nat
  content :: body

definition raise_for_status :: "response \<Rightarrow> error option" where
  "raise_for_status r = (if 400 \<le> status_code r \<and> status_code r < 600 then Some HTTPError else None)"

definition search_url :: "string \<Rightarrow> string" where
  "search_url query =
     ''https://itunes.apple.com/search?term='' @ py_replace '' '' ''+'' query
       @ ''&media=music&entity=album''"

fun artwork_urls :: "string option list \<Rightarrow> string list" where
  "artwork_urls [] = []"
| "artwork_urls (result # rest) =
     (case result of
        None \<Rightarrow> artwork_urls rest
      | Some small_art_url \<Rightarrow>
          py_replace ''100x100'' ''1200x1200'' small_art_url # artwork_urls rest)"

definition fetch_album_art :: "(string \<Rightarrow> error + response) \<Rightarrow> string \<Rightarrow> error + string list" where
  "fetch_album_art requests_get query =
     (case requests_get (search_url query) of
        Inl e \<Rightarrow> Inl e
      | Inr results \<Rightarrow>
          (case (if status_code results = 200 then raise_for_status results else None) of
             Some e \<Rightarrow> Inl e
           | None \<Rightarrow>
               (case content results of
                  NotJson \<Rightarrow> Inl ValueError
                | Json None \<Rightarrow> Inl KeyError
                | Json (Some json_results) \<Rightarrow> Inr (artwork_urls json_results))))"

section \<open>Configuration of the form\<close>

text \<open>
  The fields that \<open>create\<close> binds to a text frame with a single value: the getter and
  the setter of each.
\<close>

definition singleton_text_fields :: "(getter \<times> setter) list" where
  "singleton_text_fields =
     [(Get_title, Set_title), (Get_artist, Set_artist), (Get_album_artist, Set_album_artist),
      (Get_album, Set_album), (Get_genre, Set_genre), (Get_year, Set_year),
      (Get_track, Set_track)]"

section \<open>Notions for the renaming of a selection\<close>






section \<open>Example states\<close>







section \<open>Facts about strings and the tag dictionary\<close>

lemma find_id3_add: "List.find (\<lambda>g. HashKey g = HashKey f) (id3_add f fs) = Some f"
  by (induction fs) auto

lemma getall_id3_add_text:
  "getall (FrameID i) (id3_add (TextFrame i txt) fs) = [TextFrame i txt]"
  using find_id3_add [of "TextFrame i txt" fs] by (simp add: getall_def)




lemma py_split_no_sep: "sep \<notin> set s \<Longrightarrow> py_split sep s = [s]"
  by (induction s) auto

lemma py_rstrip_space: "py_rstrip (s @ '' '') = py_rstrip s"
  by (simp add: py_rstrip_def is_space_def)

lemma py_rstrip_newline: "py_rstrip (s @ [CHR 0x0A]) = py_rstrip s"
  by (simp add: py_rstrip_def is_space_def)

lemma py_rstrip_id: "s = [] \<or> \<not> is_space (last s) \<Longrightarrow> py_rstrip s = s"
  by (cases s rule: rev_cases) (auto simp: py_rstrip_def)

lemma digit_not_space: "is_digit c \<Longrightarrow> \<not> is_space c"
  by (auto simp: is_digit_def is_space_def)

lemma get_frames_text_single:
  "getall key (frames t) = [f] \<Longrightarrow>
   get_frames_text key t = Some (py_rstrip (concat (map (\<lambda>x. item_text x @ '' '') (frame_text f))))"
  by (simp add: get_frames_text_def get_frames_def)

section \<open>Writing a field and reading it back\<close>

lemma get_after_add_text:
  "add_text_frame i (PyStr V) t = (None, t') \<Longrightarrow> CHR 0x00 \<notin> set V \<Longrightarrow>
   get_frames_text (FrameID i) t' = Some (py_rstrip V)"
  by (auto simp: add_text_frame_def text_spec_def py_split_no_sep get_frames_text_single
      getall_id3_add_text py_rstrip_space)

lemma match_year_rstrip:
  assumes "match_year y"
  shows "py_rstrip y = take 4 y" and "py_rstrip (take 4 y) = take 4 y"
proof -
  from assms have len: "4 \<le> length y" and dig: "list_all is_digit (take 4 y)"
    and rest: "drop 4 y = [] \<or> drop 4 y = [CHR 0x0A]"
    by (auto simp: match_year_def at_dollar_def)
  from len have ne: "take 4 y \<noteq> []" by auto
  then have "last (take 4 y) \<in> set (take 4 y)" by (rule last_in_set)
  with dig have "is_digit (last (take 4 y))" by (simp add: list_all_iff)
  then show 2: "py_rstrip (take 4 y) = take 4 y"
    using py_rstrip_id [of "take 4 y"] digit_not_space by blast
  have "y = take 4 y @ drop 4 y" by simp
  with rest have "y = take 4 y \<or> y = take 4 y @ [CHR 0x0A]" by (metis append_Nil2)
  then show "py_rstrip y = take 4 y"
    using 2 py_rstrip_newline [of "take 4 y"] by metis
qed

lemma get_after_set_year:
  assumes "set_year (PyStr V) t = (None, t')"
  shows "get_year t' = Some (py_rstrip V)"
proof -
  from assms have m: "match_year V"
    and t': "t' = t\<lparr>frames := id3_add (TextFrame TDRC [ID3TimeStamp (take 4 V)]) (frames t)\<rparr>"
    by (auto simp: set_year_def split: if_splits)
  have "getall ''TDRC'' (frames t') = [TextFrame TDRC [ID3TimeStamp (take 4 V)]]"
    using getall_id3_add_text [of TDRC] by (simp add: t')
  then have "get_year t' = Some (py_rstrip (take 4 V @ '' ''))"
    by (simp add: get_year_def get_frames_text_single)
  then show ?thesis
    using match_year_rstrip [OF m] by (simp add: py_rstrip_space)
qed

lemma get_after_set_track:
  assumes "set_track (PyStr V) t = (None, t')" and "CHR 0x00 \<notin> set V"
  shows "get_track t' = Some (py_rstrip V)"
proof -
  from assms(1) have "add_text_frame TRCK (PyStr V) t = (None, t')"
    by (auto simp: set_track_def split: if_splits)
  from get_after_add_text [OF this assms(2)] show ?thesis
    by (simp add: get_track_def)
qed

lemma get_after_set_compilation:
  "get_part_of_compilation (snd (set_part_of_compilation (PyBool b) t)) = b"
  by (cases b)
     (simp_all add: set_part_of_compilation_def add_text_frame_def text_spec_def
        get_part_of_compilation_def get_frames_text_single
        getall_id3_add_text [of TCMP, simplified] py_rstrip_def is_space_def)

text \<open>
  Claim C6, as the code has it. For each of the seven text fields with a single value:
  when the setter accepts the string \<open>V\<close> (the year and track setters refuse some),
  and \<open>V\<close> holds no U+0000 (which the tag library takes as a separator of values),
  the getter then returns \<open>V\<close> without its trailing white space; so it returns exactly
  \<open>V\<close> when \<open>V\<close> does not end in white space. For the compilation flag, setting the
  boolean \<open>b\<close> and reading it back gives \<open>b\<close>, through the text "1" or "0".
\<close>

theorem set_then_get_text:
  assumes "(g, s) \<in> set singleton_text_fields"
    and "call_setter s (PyStr V) t = (None, t')"
    and "CHR 0x00 \<notin> set V"
  shows "call_getter g t' = PyStr (py_rstrip V)
       \<and> (V = [] \<or> \<not> is_space (last V) \<longrightarrow> call_getter g t' = PyStr V)
       \<and> get_part_of_compilation (snd (set_part_of_compilation (PyBool b) t)) = b"
proof -
  have "call_getter g t' = PyStr (py_rstrip V)"
    using assms get_after_add_text [of TIT2 V t t'] get_after_add_text [of TPE1 V t t']
      get_after_add_text [of TPE2 V t t'] get_after_add_text [of TALB V t t']
      get_after_add_text [of TCON V t t']
    by (auto simp: singleton_text_fields_def str_or_none_def
        set_title_def get_title_def set_artist_def get_artist_def
        set_album_artist_def get_album_artist_def set_album_def get_album_def
        set_genre_def get_genre_def get_after_set_year get_after_set_track)
  then show ?thesis
    using py_rstrip_id [of V] by (auto simp: get_after_set_compilation)
qed

theorem set_then_get_text_witness:
  "(Get_title, Set_title) \<in> set singleton_text_fields
   \<and> call_setter Set_title (PyStr ''abc'') \<lparr>filename = ''/m/a.mp3'', frames = []\<rparr>
       = (None, \<lparr>filename = ''/m/a.mp3'', frames = [TextFrame TIT2 [Str ''abc'']]\<rparr>)
   \<and> CHR 0x00 \<notin> set ''abc''
   \<and> call_getter Get_title \<lparr>filename = ''/m/a.mp3'', frames = [TextFrame TIT2 [Str ''abc'']]\<rparr>
       = PyStr ''abc''"
  using set_then_get_text [of Get_title Set_title "''abc''"
      "\<lparr>filename = ''/m/a.mp3'', frames = []\<rparr>"
      "\<lparr>filename = ''/m/a.mp3'', frames = [TextFrame TIT2 [Str ''abc'']]\<rparr>"]
  by (simp add: singleton_text_fields_def set_title_def add_text_frame_def text_spec_def
      py_rstrip_def is_space_def)

text \<open>
  The claim as written fails on a value that ends in a space: the title "a " is read
  back as "a". It also fails on a value that holds U+0000: the title made of "a",
  U+0000 and "b" is stored as two values and read back as "a b".
\<close>

theorem set_then_get_trailing_space_counterexample:
  "get_title (snd (set_title (PyStr ''a '') \<lparr>filename = ''/m/a.mp3'', frames = []\<rparr>))
     = Some ''a''
   \<and> get_title (snd (set_title (PyStr ''a '') \<lparr>filename = ''/m/a.mp3'', frames = []\<rparr>))
     \<noteq> Some ''a ''
   \<and> get_title (snd (set_title (PyStr (''a'' @ [CHR 0x00] @ ''b''))
        \<lparr>filename = ''/m/a.mp3'', frames = []\<rparr>))
     = Some ''a b''"
  by (simp add: set_title_def add_text_frame_def text_spec_def get_title_def
      get_frames_text_def get_frames_def getall_def startswith_def py_rstrip_def is_space_def)

section \<open>The year pattern\<close>

lemma set_year_str:
  "set_year (PyStr V) t =
     (if match_year V
      then (None, t\<lparr>frames := id3_add (TextFrame TDRC [ID3TimeStamp (take 4 V)]) (frames t)\<rparr>)
      else (Some ValueError, t))"
  by (simp add: set_year_def)

lemma match_year_iff:
  "match_year s \<longleftrightarrow>
     (\<exists>a b c d. is_digit a \<and> is_digit b \<and> is_digit c \<and> is_digit d
        \<and> (s = [a, b, c, d] \<or> s = [a, b, c, d, CHR 0x0A]))"
proof
  assume m: "match_year s"
  then have len: "4 \<le> length s" by (simp add: match_year_def)
  then obtain a b c d r where s: "s = a # b # c # d # r"
    by (cases s; cases "tl s"; cases "tl (tl s)"; cases "tl (tl (tl s))") auto
  with m show "\<exists>a b c d. is_digit a \<and> is_digit b \<and> is_digit c \<and> is_digit d
        \<and> (s = [a, b, c, d] \<or> s = [a, b, c, d, CHR 0x0A])"
    by (auto simp: match_year_def at_dollar_def)
next
  assume "\<exists>a b c d. is_digit a \<and> is_digit b \<and> is_digit c \<and> is_digit d
        \<and> (s = [a, b, c, d] \<or> s = [a, b, c, d, CHR 0x0A])"
  then show "match_year s"
    by (auto simp: match_year_def at_dollar_def)
qed

lemma set_year_examples:
  "fst (set_year (PyStr ''1999'') t) = None"
  "set_year (PyStr ''99'') t = (Some ValueError, t)"
  "set_year (PyStr ''abcd'') t = (Some ValueError, t)"
  "set_year (PyStr ''19999'') t = (Some ValueError, t)"
  by (simp_all add: set_year_def match_year_def at_dollar_def is_digit_def)

text \<open>
  Claim C8 says that \<open>set_year\<close> accepts a value exactly when it is four decimal
  digits. The pattern of the source ends in \<open>$\<close>, which in Python also matches before
  a final line feed: the string of five characters made of "1999" and a line feed is
  accepted, and a year frame is stored. By \<open>match_year_iff\<close> these are the only values
  accepted beyond the four-digit ones; every other string is refused with
  \<open>ValueError\<close> and leaves the track as it was (\<open>set_year_str\<close>).
\<close>

theorem set_year_accepts_line_feed:
  "length (''1999'' @ [CHR 0x0A]) = 5
   \<and> set_year (PyStr (''1999'' @ [CHR 0x0A])) t
     = (None, t\<lparr>frames := id3_add (TextFrame TDRC [ID3TimeStamp ''1999'']) (frames t)\<rparr>)"
  by (simp add: set_year_def match_year_def at_dollar_def is_digit_def)

section \<open>Pictures\<close>

lemma add_picture_from_file_bad_mime:
  "guess_type path \<notin> {Some ''image/png'', Some ''image/jpeg''} \<Longrightarrow>
   add_picture_from_file guess_type read path clear_existing t
     = (Some ValueError, if clear_existing then clear_pictures t else t)"
  by (simp add: add_picture_from_file_def Let_def)

lemma add_picture_from_url_bad_mime:
  "guess_type url \<notin> {Some ''image/png'', Some ''image/jpeg''} \<Longrightarrow>
   add_picture_from_url guess_type read url clear_existing t
     = (Some ValueError, if clear_existing then clear_pictures t else t)"
  by (simp add: add_picture_from_url_def Let_def)

text \<open>
  Claim C1 says that a picture of a type other than PNG or JPEG is refused with no
  change to the frames. Both picture methods clear the existing pictures (when asked to,
  which is the default) before they look at the type: on a track that holds a title and
  a PNG cover, adding a GIF raises \<open>ValueError\<close> and leaves the track without its
  cover. By the two lemmas above the frames stay as they were only when the caller
  passes \<open>clear_existing_pictures=False\<close>.
\<close>

theorem add_picture_gif_removes_pictures:
  "add_picture_from_file (\<lambda>p. Some ''image/gif'') read ''/m/cover.gif'' True
     \<lparr>filename = ''/m/a.mp3'',
      frames = [TextFrame TIT2 [Str ''T''], APIC ''image/png'' 3 ''Front Cover'' ''data'']\<rparr>
   = (Some ValueError, \<lparr>filename = ''/m/a.mp3'', frames = [TextFrame TIT2 [Str ''T'']]\<rparr>)
   \<and> add_picture_from_url (\<lambda>p. Some ''image/gif'') urlopen ''http://h/cover.gif'' True
     \<lparr>filename = ''/m/a.mp3'',
      frames = [TextFrame TIT2 [Str ''T''], APIC ''image/png'' 3 ''Front Cover'' ''data'']\<rparr>
   = (Some ValueError, \<lparr>filename = ''/m/a.mp3'', frames = [TextFrame TIT2 [Str ''T'']]\<rparr>)"
  by (simp add: add_picture_from_file_def add_picture_from_url_def clear_pictures_def
      delete_frames_def delall_def startswith_def)

section \<open>Renaming one file\<close>

lemma id3_load_not_exists: "id3_load p fs t \<noteq> (Some FileExistsError, t')"
  by (simp add: id3_load_def split: option.splits node.splits)

text \<open>
  Claim C3, as the code has it: \<open>rename_file\<close> raises \<open>FileExistsError\<close> exactly when
  the target path (the directory of the current path joined with the sanitized name)
  exists, whether or not it is the track's own path; the files and the track are then
  unchanged.
\<close>

theorem rename_file_exists_iff:
  "(fst (rename_file new_base (fs, t)) = Some FileExistsError)
     = path_exists fs (new_path_of t new_base)
   \<and> (path_exists fs (new_path_of t new_base)
        \<longrightarrow> rename_file new_base (fs, t) = (Some FileExistsError, fs, t))"
  by (auto simp: rename_file_def Let_def os_replace_def id3_load_not_exists
      split: prod.splits sum.splits if_splits)

theorem rename_file_exists_iff_witness:
  "path_exists
     (Map.empty(''/m'' \<mapsto> Dir, ''/m/a.mp3'' \<mapsto> File (Some []),
        ''/m/b.mp3'' \<mapsto> File (Some [])))
     (new_path_of \<lparr>filename = ''/m/a.mp3'', frames = []\<rparr> ''b.mp3'')
   \<and> rename_file ''b.mp3''
       (Map.empty(''/m'' \<mapsto> Dir, ''/m/a.mp3'' \<mapsto> File (Some []),
          ''/m/b.mp3'' \<mapsto> File (Some [])),
        \<lparr>filename = ''/m/a.mp3'', frames = []\<rparr>)
      = (Some FileExistsError,
         Map.empty(''/m'' \<mapsto> Dir, ''/m/a.mp3'' \<mapsto> File (Some []),
           ''/m/b.mp3'' \<mapsto> File (Some [])),
         \<lparr>filename = ''/m/a.mp3'', frames = []\<rparr>)"
  using rename_file_exists_iff [of "''b.mp3''"
      "Map.empty(''/m'' \<mapsto> Dir, ''/m/a.mp3'' \<mapsto> File (Some []),
         ''/m/b.mp3'' \<mapsto> File (Some []))"
      "\<lparr>filename = ''/m/a.mp3'', frames = []\<rparr>"]
  by (simp add: path_exists_def new_path_of_def path_join_def dirname_def rfind_def
      rstrip_char_def ensure_valid_filename_def splitext_def slice_to_def py_replace.simps)

text \<open>
  The claim as written fails when the new base name is the current one: the target is
  then the track's own file, which exists, and the call raises \<open>FileExistsError\<close>.
\<close>

theorem rename_file_same_name_counterexample:
  "basename (filename \<lparr>filename = ''/m/a.mp3'', frames = []\<rparr>) = ''a.mp3''
   \<and> rename_file ''a.mp3'' (Map.empty(''/m'' \<mapsto> Dir, ''/m/a.mp3'' \<mapsto> File (Some [])),
        \<lparr>filename = ''/m/a.mp3'', frames = []\<rparr>)
      = (Some FileExistsError, Map.empty(''/m'' \<mapsto> Dir, ''/m/a.mp3'' \<mapsto> File (Some [])),
         \<lparr>filename = ''/m/a.mp3'', frames = []\<rparr>)"
  by (simp add: rename_file_def basename_def path_exists_def new_path_of_def path_join_def
      dirname_def rfind_def rstrip_char_def ensure_valid_filename_def splitext_def slice_to_def
      py_replace.simps Let_def)

text \<open>
  Claim C4 says that a rename leaves every value the getters show as it was, unsaved
  edits included. After moving the file, \<open>rename_file\<close> loads the tag again from it
  (to bring \<open>filename\<close> up to date), and the frames of the file replace those in
  memory: a track whose file says "Old" and whose title was set to "New" without a save
  shows "New" before the rename and "Old" after it.
\<close>

theorem rename_file_reverts_unsaved_title:
  "get_title (snd (set_title (PyStr ''New'')
       \<lparr>filename = ''/m/a.mp3'', frames = [TextFrame TIT2 [Str ''Old'']]\<rparr>)) = Some ''New''
   \<and> rename_file ''b.mp3''
       (Map.empty(''/m'' \<mapsto> Dir, ''/m/a.mp3'' \<mapsto> File (Some [TextFrame TIT2 [Str ''Old'']])),
        snd (set_title (PyStr ''New'')
          \<lparr>filename = ''/m/a.mp3'', frames = [TextFrame TIT2 [Str ''Old'']]\<rparr>))
     = (None, Map.empty(''/m'' \<mapsto> Dir, ''/m/b.mp3'' \<mapsto> File (Some [TextFrame TIT2 [Str ''Old'']])),
        \<lparr>filename = ''/m/b.mp3'', frames = [TextFrame TIT2 [Str ''Old'']]\<rparr>)
   \<and> get_title \<lparr>filename = ''/m/b.mp3'', frames = [TextFrame TIT2 [Str ''Old'']]\<rparr> = Some ''Old''"
  by (simp add: rename_file_def basename_def path_exists_def new_path_of_def path_join_def
      dirname_def rfind_def rstrip_char_def ensure_valid_filename_def splitext_def slice_to_def
      py_replace.simps set_title_def add_text_frame_def text_spec_def get_title_def
      get_frames_text_def get_frames_def getall_def startswith_def py_rstrip_def is_space_def
      os_replace_def parent_ok_def id3_load_def Let_def)

section \<open>Comments\<close>










section \<open>Album art\<close>

lemma py_replace_char:
  "py_replace [a] new s = concat (map (\<lambda>c. if c = a then new else [c]) s)"
proof (induction s)
  case Nil
  then show ?case by (simp add: py_replace.simps)
next
  case (Cons x xs)
  then show ?case by (simp add: py_replace.simps [of "[a]" new "x # xs"])
qed

lemma query_plus:
  "py_replace '' '' ''+'' query = map (\<lambda>c. if c = CHR '' '' then CHR ''+'' else c) query"
  by (induction query) (simp_all add: py_replace_char)

text \<open>
  Claim C10, as the code has it. The URL that is requested holds the query with every
  space turned into a plus sign, and the result depends on the network only through the
  answer to that one URL. When the answer has status 200 and a JSON body with a list of
  results, the function returns the art URLs of the results that carry one, which is the
  empty list when there are no results.
\<close>

theorem fetch_album_art_success:
  "search_url query
     = ''https://itunes.apple.com/search?term=''
       @ map (\<lambda>c. if c = CHR '' '' then CHR ''+'' else c) query @ ''&media=music&entity=album''
   \<and> (\<forall>other_get. other_get (search_url query) = requests_get (search_url query)
         \<longrightarrow> fetch_album_art other_get query = fetch_album_art requests_get query)
   \<and> (requests_get (search_url query) = Inr \<lparr>status_code = 200, content = Json (Some json_results)\<rparr>
        \<longrightarrow> fetch_album_art requests_get query = Inr (artwork_urls json_results)
          \<and> (json_results = [] \<longrightarrow> fetch_album_art requests_get query = Inr []))"
  by (auto simp: query_plus search_url_def fetch_album_art_def raise_for_status_def)

theorem fetch_album_art_success_witness:
  "search_url ''dark arc'' = ''https://itunes.apple.com/search?term=dark+arc&media=music&entity=album''
   \<and> fetch_album_art (\<lambda>url. Inr \<lparr>status_code = 200, content = Json (Some [])\<rparr>) ''dark arc'' = Inr []"
  using fetch_album_art_success [of "''dark arc''"
      "\<lambda>url. Inr \<lparr>status_code = 200, content = Json (Some [])\<rparr>" "[]"]
  by simp

text \<open>
  The claim as written fails for an answer that is not a success: with status 503 and a
  body that is not JSON the function raises \<open>ValueError\<close>, and with status 404 and a
  JSON body with one result it returns that result's URL.
\<close>

theorem fetch_album_art_failure_counterexample:
  "fetch_album_art (\<lambda>url. Inr \<lparr>status_code = 503, content = NotJson\<rparr>) ''dark arc'' = Inl ValueError
   \<and> fetch_album_art (\<lambda>url. Inr \<lparr>status_code = 404,
        content = Json (Some [Some ''http://a/100x100bb.jpg''])\<rparr>) ''dark arc''
      = Inr [''http://a/1200x1200bb.jpg'']"
  by (simp add: fetch_album_art_def py_replace.simps)

section \<open>The value a field shows for a selection\<close>






section \<open>Applying the fields to the selection\<close>











section \<open>Renaming the selected files\<close>












text \<open>
  The condition on the target directories is needed: only \<open>FileExistsError\<close> is
  caught, so a track whose artist is "AC/DC" (the only frame of its tag) sends the move
  to a directory that does not exist, and the loop ends with \<open>FileNotFoundError\<close>.
\<close>

lemma rename_loop_slash_aborts:
  "fst (rename_loop [''/m/a.mp3'']
      \<lparr>form_fields = [], mp3_tracks = Map.empty(''/m/a.mp3'' \<mapsto> 0),
       selected_mp3_tracks = [0],
       heap = (\<lambda>r. \<lparr>filename = ''/m/a.mp3'', frames = [TextFrame TPE1 [Str ''AC/DC'']]\<rparr>),
       files = Map.empty(''/m'' \<mapsto> Dir,
                 ''/m/a.mp3'' \<mapsto> File (Some [TextFrame TPE1 [Str ''AC/DC'']]))\<rparr> [] [])
     = Some FileNotFoundError"
  by (simp add: file_name_info_def get_artist_def get_album_def get_title_def
      get_frames_text_def get_frames_def getall_def startswith_def py_rstrip_def is_space_def
      Let_def basename_def get_file_path_def rfind_def rename_file_def new_path_of_def
      path_join_def dirname_def rstrip_char_def ensure_valid_filename_def splitext_def
      slice_to_def py_replace.simps path_exists_def os_replace_def parent_ok_def)







end
